theory Spec2Isabelle
  imports Main
begin

section \<open>Values, errors, contexts\<close>

text \<open>
  A Go \<open>interface{}\<close> value: the header of a token maps names to such values, and the
  key provider and the entity verifier return one. \<open>ANil\<close> is the nil interface,
  \<open>AString\<close> a value whose dynamic type is exactly \<open>string\<close>, \<open>AObject\<close> any other
  object (a public key, an identity record), named by a number.
\<close>

datatype any = ANil | AString string | ANumber int | ABool bool | AObject nat

text \<open>The two gRPC status codes the handler uses.\<close>

datatype codes = Unimplemented | Internal

text \<open>
  Error values. \<open>ErrorsNew msg\<close> is \<open>errors.New(msg)\<close>, \<open>StatusError c msg\<close> is
  \<open>status.Error(c, msg)\<close>, \<open>External n\<close> is an error made by a collaborator (key
  provider, entity verifier, signer, base validation), \<open>ValidationError\<close> the error of
  the registered-claims validation. \<open>PanicNilDereference\<close> is not a returned error but
  the run-time panic of a method call on a nil interface.
\<close>

datatype validation_flag = Expired | UsedBeforeIssued | NotValidYet

datatype error =
    ErrorsNew string
  | StatusError codes string
  | External nat
  | ValidationError "validation_flag list"
  | PanicNilDereference

text \<open>
  A \<open>context.Context\<close>: the two empty contexts of the standard library, which carry no
  deadline, no cancellation and no values, and any context with a scope of its own.
\<close>

datatype Context = Background | TODO | Scoped nat

text \<open>Points in time, in whole seconds (the precision of a numeric date of a token).\<close>

type_synonym time = int

section \<open>Claims\<close>

text \<open>The registered claims of the JWT library (\<open>jwt.RegisteredClaims\<close>).\<close>

record RegisteredClaims =
  Issuer :: string
  Subject :: string
  Audience :: "string list"
  ExpiresAt :: "time option"
  NotBefore :: "time option"
  IssuedAt :: "time option"
  ID :: string

text \<open>
  \<open>rpc.JWTClaims\<close>: the registered claims, the credentials type and the authentication
  metadata. A nil map and an empty map read alike.
\<close>

record JWTClaims =
  RegisteredClaims :: RegisteredClaims
  CredentialsType :: string
  AuthMetadata :: "string \<rightharpoonup> string"

record webOAuthClaims =
  JWTClaims :: JWTClaims
  allowedAudience :: string

definition CredentialsTypeOAuthWeb :: string where
  "CredentialsTypeOAuthWeb = ''oauth-web-auth''"

text \<open>The zero values of the claim structures, as a composite literal leaves them.\<close>

definition zero_RegisteredClaims :: RegisteredClaims where
  "zero_RegisteredClaims =
     \<lparr>Issuer = [], Subject = [], Audience = [], ExpiresAt = None, NotBefore = None,
      IssuedAt = None, ID = []\<rparr>"

definition zero_JWTClaims :: JWTClaims where
  "zero_JWTClaims =
     \<lparr>RegisteredClaims = zero_RegisteredClaims, CredentialsType = [],
      AuthMetadata = Map.empty\<rparr>"

text \<open>\<open>webOAuthClaims.Entity\<close>: the comma-ok lookup of \<open>"email"\<close> in the metadata.\<close>

definition Entity :: "webOAuthClaims \<Rightarrow> error + string" where
  "Entity c =
     (case AuthMetadata (JWTClaims c) ''email'' of
        Some email \<Rightarrow> Inr email
      | None \<Rightarrow> Inl (ErrorsNew ''missing email in rpc_auth_md''))"

text \<open>
  Modelled from the spec: the audience check of the registered claims
  (\<open>jwt.RegisteredClaims.VerifyAudience\<close>, in module golang-jwt/jwt v4, not under src/).
  The spec: "the token's audience list must contain the handler's configured
  allowed-audience value (exact match against one or more entries; if no entry matches,
  fail)". The definition follows the library's loop: an empty list fails a required
  check, every entry is compared with \<open>cmp\<close> and appended to \<open>stringClaims\<close>, and a list
  whose entries are all empty fails a required check as well.
\<close>

fun verifyAud_range :: "string list \<Rightarrow> string \<Rightarrow> bool \<Rightarrow> string \<Rightarrow> bool \<times> string" where
  "verifyAud_range [] cmp result stringClaims = (result, stringClaims)"
| "verifyAud_range (a # rest) cmp result stringClaims =
     verifyAud_range rest cmp (if a = cmp then True else result) (stringClaims @ a)"

definition verifyAud :: "string list \<Rightarrow> string \<Rightarrow> bool \<Rightarrow> bool" where
  "verifyAud aud cmp required =
     (if length aud = 0 then \<not> required
      else (case verifyAud_range aud cmp False [] of
              (result, stringClaims) \<Rightarrow>
                if length stringClaims = 0 then \<not> required else result))"

definition VerifyAudience :: "RegisteredClaims \<Rightarrow> string \<Rightarrow> bool \<Rightarrow> bool" where
  "VerifyAudience c cmp req = verifyAud (Audience c) cmp req"

text \<open>
  \<open>webOAuthClaims.Valid\<close>. The validation of the base claim type, \<open>rpc.JWTClaims.Valid\<close>,
  is not under src/: it is the parameter \<open>base\<close>. \<open>None\<close> is the nil error.
\<close>

definition Valid :: "(JWTClaims \<Rightarrow> error option) \<Rightarrow> webOAuthClaims \<Rightarrow> error option" where
  "Valid base c =
     (if \<not> VerifyAudience (RegisteredClaims (JWTClaims c)) (allowedAudience c) True
      then Some (ErrorsNew ''invalid aud'')
      else base (JWTClaims c))"

text \<open>
  Modelled from the spec: the base claim type's own structural validation, missing from
  src/ (\<open>rpc.JWTClaims\<close> embeds the registered claims, whose \<open>Valid\<close> is promoted). The
  spec: "expiry-not-passed, issued-at sanity". Each of the three dates is optional; a
  date that is set is checked against the clock \<open>now\<close>, and all failures are collected.
\<close>

definition RegisteredClaims_Valid :: "time \<Rightarrow> RegisteredClaims \<Rightarrow> error option" where
  "RegisteredClaims_Valid now c =
     (let flags =
            (case ExpiresAt c of Some exp \<Rightarrow> if now < exp then [] else [Expired]
                               | None \<Rightarrow> [])
          @ (case IssuedAt c of Some iat \<Rightarrow> if iat \<le> now then [] else [UsedBeforeIssued]
                              | None \<Rightarrow> [])
          @ (case NotBefore c of Some nbf \<Rightarrow> if nbf \<le> now then [] else [NotValidYet]
                               | None \<Rightarrow> [])
      in if flags = [] then None else Some (ValidationError flags))"

definition JWTClaims_Valid :: "time \<Rightarrow> JWTClaims \<Rightarrow> error option" where
  "JWTClaims_Valid now c = RegisteredClaims_Valid now (RegisteredClaims c)"

section \<open>Tokens\<close>

datatype SigningMethod = SigningMethodRS256 | SigningMethodOther string

fun Alg :: "SigningMethod \<Rightarrow> string" where
  "Alg SigningMethodRS256 = ''RS256''"
| "Alg (SigningMethodOther name) = name"

text \<open>
  \<open>jwt.Token\<close>, with the type of its claims left open. A nil header map and an empty
  one read alike; \<open>Method = None\<close> is the nil signing method.
\<close>

record 'c Token =
  Raw :: string
  Method :: "SigningMethod option"
  Header :: "string \<rightharpoonup> any"
  Claims :: 'c
  Signature :: string
  TokenValid :: bool

text \<open>
  The token literal of \<open>SignWebAuthAccessToken\<close>; \<open>now\<close> is the value of
  \<open>time.Now()\<close>, in the whole seconds that \<open>jwt.NewNumericDate\<close> keeps. The fields
  the literal leaves out are zero.
\<close>

definition webAuthAccessToken ::
  "time \<Rightarrow> string \<Rightarrow> string \<Rightarrow> string \<Rightarrow> string \<Rightarrow> JWTClaims Token" where
  "webAuthAccessToken now entity aud iss keyID =
     \<lparr>Raw = [],
      Method = Some SigningMethodRS256,
      Header = [''typ'' \<mapsto> AString ''JWT'',
                ''alg'' \<mapsto> AString (Alg SigningMethodRS256),
                ''kid'' \<mapsto> AString keyID],
      Claims =
        \<lparr>RegisteredClaims =
           \<lparr>Issuer = iss, Subject = entity, Audience = [aud], ExpiresAt = None,
            NotBefore = None, IssuedAt = Some now, ID = []\<rparr>,
         CredentialsType = CredentialsTypeOAuthWeb,
         AuthMetadata = [''email'' \<mapsto> entity]\<rparr>,
      Signature = [],
      TokenValid = False\<rparr>"

text \<open>
  \<open>SignWebAuthAccessToken\<close>. The signing and serialising method of the library,
  \<open>token.SignedString\<close>, is the parameter \<open>SignedString\<close>: it yields the compact form or
  a signing failure.
\<close>

definition SignWebAuthAccessToken ::
  "(JWTClaims Token \<Rightarrow> any \<Rightarrow> error + string) \<Rightarrow> time \<Rightarrow>
   any \<Rightarrow> string \<Rightarrow> string \<Rightarrow> string \<Rightarrow> string \<Rightarrow> error + string" where
  "SignWebAuthAccessToken SignedString now key entity aud iss keyID =
     SignedString (webAuthAccessToken now entity aud iss keyID) key"

section \<open>The handler\<close>

text \<open>
  The options of the handler. The key provider and the entity verifier are
  collaborators: each is a function of the context, the string and the state \<open>'w\<close> of
  the world outside, and returns its result with the new state of the world. \<open>None\<close> is
  the nil interface or the nil function.
\<close>

type_synonym 'w collaborator = "Context \<Rightarrow> string \<Rightarrow> 'w \<Rightarrow> (error + any) \<times> 'w"

record 'w WebOAuthOptions =
  AllowedAudience :: string
  KeyProvider :: "'w collaborator option"
  EntityVerifier :: "'w collaborator option"
  Logger :: any

record 'w webOAuthHandler =
  WebOAuthOptions :: "'w WebOAuthOptions"

text \<open>
  \<open>WithWebOAuthTokenAuthHandler\<close>: the handler built from the options, with the
  credentials type it is registered under.
\<close>

definition WithWebOAuthTokenAuthHandler ::
  "'w WebOAuthOptions \<Rightarrow> string \<times> 'w webOAuthHandler" where
  "WithWebOAuthTokenAuthHandler opts =
     (CredentialsTypeOAuthWeb, \<lparr>WebOAuthOptions = opts\<rparr>)"

text \<open>A call the handler makes to a collaborator, with the arguments it passes.\<close>

datatype event = LookupKey Context string | VerifierCall Context string

text \<open>
  The state the methods of the handler run in: the handler object the receiver points
  to, the claims objects allocated so far (a pointer is an index into the list), the
  world of the collaborators, and the calls made to them, oldest first.
\<close>

record 'w state =
  handler :: "'w webOAuthHandler"
  heap :: "webOAuthClaims list"
  world :: 'w
  calls :: "event list"

text \<open>
  A call to a collaborator: it runs on the world, and the call is recorded with the
  context and the string that were passed.
\<close>

definition call_collaborator ::
  "'w collaborator \<Rightarrow> (Context \<Rightarrow> string \<Rightarrow> event) \<Rightarrow> Context \<Rightarrow> string \<Rightarrow>
   'w state \<Rightarrow> (error + any) \<times> 'w state" where
  "call_collaborator f record_call ctx arg s =
     (case f ctx arg (world s) of
        (r, w') \<Rightarrow> (r, s\<lparr>world := w', calls := calls s @ [record_call ctx arg]\<rparr>))"

definition Authenticate ::
  "Context \<Rightarrow> string \<Rightarrow> string \<Rightarrow> 'w state \<Rightarrow> (error + (string \<rightharpoonup> string)) \<times> 'w state" where
  "Authenticate ctx entity payload s =
     (Inl (StatusError Unimplemented ''not implemented with webauth''), s)"

definition VerifyEntity ::
  "Context \<Rightarrow> string \<Rightarrow> 'w state \<Rightarrow> (error + any) \<times> 'w state" where
  "VerifyEntity ctx entity s =
     (case EntityVerifier (WebOAuthOptions (handler s)) of
        None \<Rightarrow> (Inl (StatusError Internal ''invalid verify entity configuration''), s)
      | Some verifier \<Rightarrow> call_collaborator verifier VerifierCall ctx entity s)"

text \<open>
  \<open>CreateClaims\<close> allocates a claims object, every field zero but the allowed audience,
  and returns the pointer to it.
\<close>

definition CreateClaims :: "'w state \<Rightarrow> nat \<times> 'w state" where
  "CreateClaims s =
     (length (heap s),
      s\<lparr>heap := heap s @
          [\<lparr>JWTClaims = zero_JWTClaims,
            allowedAudience = AllowedAudience (WebOAuthOptions (handler s))\<rparr>]\<rparr>)"

text \<open>
  \<open>TokenVerificationKey\<close>. The type assertion \<open>.(string)\<close> holds for a string value
  only; a missing header entry reads as the nil interface and fails it.
\<close>

definition TokenVerificationKey :: "'c Token \<Rightarrow> 'w state \<Rightarrow> (error + any) \<times> 'w state" where
  "TokenVerificationKey token s =
     (case Header token ''kid'' of
        Some (AString keyID) \<Rightarrow>
          (case KeyProvider (WebOAuthOptions (handler s)) of
             None \<Rightarrow> (Inl PanicNilDereference, s)
           | Some provider \<Rightarrow>
               call_collaborator provider LookupKey TODO keyID s)
      | _ \<Rightarrow> (Inl (ErrorsNew ''kid not valid''), s))"

text \<open>
  Modelled from the spec: "produce an empty Claims object, fill it from the token
  payload". The decoding is done by the RPC layer and the JWT library, not under src/:
  it stores the payload of the token in the claims object and leaves the allowed
  audience, which is not part of the wire payload, as the handler set it.
\<close>

definition fill_claims :: "JWTClaims \<Rightarrow> webOAuthClaims \<Rightarrow> webOAuthClaims" where
  "fill_claims payload c = c\<lparr>JWTClaims := payload\<rparr>"

section \<open>Histories of calls\<close>

text \<open>
  A call of one of the four methods of the handler, what it returns, and the run of a
  list of calls, each from the state the one before left.
\<close>

datatype 'c call =
    CallAuthenticate Context string string
  | CallVerifyEntity Context string
  | CallCreateClaims
  | CallTokenVerificationKey "'c Token"

datatype outcome =
    Authenticated "error + (string \<rightharpoonup> string)"
  | Verified "error + any"
  | Created nat
  | Resolved "error + any"

fun exec :: "'c call \<Rightarrow> 'w state \<Rightarrow> outcome \<times> 'w state" where
  "exec (CallAuthenticate ctx entity payload) s =
     (case Authenticate ctx entity payload s of (r, s') \<Rightarrow> (Authenticated r, s'))"
| "exec (CallVerifyEntity ctx entity) s =
     (case VerifyEntity ctx entity s of (r, s') \<Rightarrow> (Verified r, s'))"
| "exec CallCreateClaims s =
     (case CreateClaims s of (p, s') \<Rightarrow> (Created p, s'))"
| "exec (CallTokenVerificationKey token) s =
     (case TokenVerificationKey token s of (r, s') \<Rightarrow> (Resolved r, s'))"

fun run :: "'c call list \<Rightarrow> 'w state \<Rightarrow> outcome list \<times> 'w state" where
  "run [] s = ([], s)"
| "run (c # cs) s =
     (case exec c s of (r, s') \<Rightarrow>
        (case run cs s' of (rs, s'') \<Rightarrow> (r # rs, s'')))"

text \<open>The pointers that the calls of \<open>CreateClaims\<close> in a run returned, oldest first.\<close>

fun created :: "outcome list \<Rightarrow> nat list" where
  "created [] = []"
| "created (Created p # rs) = p # created rs"
| "created (_ # rs) = created rs"

section \<open>A configuration to evaluate on\<close>

text \<open>
  A key provider that knows the key \<open>"k1"\<close> only, an entity verifier that accepts every
  entity, and a handler built from them for the audience \<open>"svc-a"\<close>. The world counts
  the calls the collaborators have answered.
\<close>

definition example_provider :: "nat collaborator" where
  "example_provider ctx keyID w =
     (if keyID = ''k1'' then Inr (AObject 1) else Inl (External 0), Suc w)"

definition example_verifier :: "nat collaborator" where
  "example_verifier ctx entity w = (Inr (AString entity), Suc w)"

definition example_options :: "nat WebOAuthOptions" where
  "example_options =
     \<lparr>AllowedAudience = ''svc-a'', KeyProvider = Some example_provider,
      EntityVerifier = Some example_verifier, Logger = ANil\<rparr>"

definition example_state :: "nat state" where
  "example_state =
     \<lparr>handler = snd (WithWebOAuthTokenAuthHandler example_options), heap = [],
      world = 0, calls = []\<rparr>"

text \<open>The same handler with neither collaborator configured.\<close>

definition bare_state :: "nat state" where
  "bare_state =
     \<lparr>handler = \<lparr>WebOAuthOptions =
         \<lparr>AllowedAudience = ''svc-a'', KeyProvider = None, EntityVerifier = None,
          Logger = ANil\<rparr>\<rparr>,
      heap = [], world = 0, calls = []\<rparr>"

text \<open>A token with the given header and every other field zero.\<close>

definition token_with_header :: "(string \<rightharpoonup> any) \<Rightarrow> unit Token" where
  "token_with_header h =
     \<lparr>Raw = [], Method = None, Header = h, Claims = (), Signature = [],
      TokenValid = False\<rparr>"

section \<open>The wire form of the claims\<close>

text \<open>
  Modelled from the spec: "signs with the given private key and returns the compact
  serialized form"; the RPC layer later "fills [the claims object] from the token
  payload". The serialising (\<open>token.SignedString\<close>) and the parsing are done by the JWT
  library with Go's \<open>encoding/json\<close>, none of it under src/. A string is a sequence of
  bytes; JSON text carries UTF-8 only, so the encoder writes every byte that does not
  begin a valid UTF-8 sequence as the replacement character U+FFFD, which the decoder
  reads back as the three bytes EF BF BD. All other bytes come back as they were.

  \<open>rune_size s\<close> is the number of bytes of the UTF-8 sequence at the head of \<open>s\<close>, as
  \<open>utf8.DecodeRuneInString\<close> accepts it, and 0 when the first byte does not begin one
  (a stray continuation byte, an overlong form, a surrogate, a value above U+10FFFF, a
  sequence cut short).
\<close>

definition in_range :: "nat \<Rightarrow> nat \<Rightarrow> char \<Rightarrow> bool" where
  "in_range lo hi c \<longleftrightarrow> lo \<le> of_char c \<and> of_char c \<le> hi"

fun rune_size :: "string \<Rightarrow> nat" where
  "rune_size [] = 0"
| "rune_size (s0 # rest) =
     (let b = of_char s0 :: nat in
      if b < 0x80 then 1
      else if b < 0xC2 then 0
      else if b < 0xE0 then
        (case rest of
           s1 # _ \<Rightarrow> if in_range 0x80 0xBF s1 then 2 else 0
         | _ \<Rightarrow> 0)
      else if b < 0xF0 then
        (case rest of
           s1 # s2 # _ \<Rightarrow>
             if in_range (if b = 0xE0 then 0xA0 else 0x80) (if b = 0xED then 0x9F else 0xBF) s1
                \<and> in_range 0x80 0xBF s2
             then 3 else 0
         | _ \<Rightarrow> 0)
      else if b < 0xF5 then
        (case rest of
           s1 # s2 # s3 # _ \<Rightarrow>
             if in_range (if b = 0xF0 then 0x90 else 0x80) (if b = 0xF4 then 0x8F else 0xBF) s1
                \<and> in_range 0x80 0xBF s2 \<and> in_range 0x80 0xBF s3
             then 4 else 0
         | _ \<Rightarrow> 0)
      else 0)"

text \<open>
  \<open>json_string s\<close> is the string that comes back when \<open>s\<close> is encoded and decoded.
  \<open>json_copy k\<close> copies the \<open>k\<close> bytes that remain of the sequence it is in, then goes
  on sequence by sequence. \<open>ValidString\<close> is \<open>utf8.ValidString\<close>: every byte belongs to a
  valid sequence.
\<close>

fun json_copy :: "nat \<Rightarrow> string \<Rightarrow> string" where
  "json_copy k [] = []"
| "json_copy (Suc k) (b # rest) = b # json_copy k rest"
| "json_copy 0 (b # rest) =
     (case rune_size (b # rest) of
        0 \<Rightarrow> [CHR 0xEF, CHR 0xBF, CHR 0xBD] @ json_copy 0 rest
      | Suc n \<Rightarrow> b # json_copy n rest)"

definition json_string :: "string \<Rightarrow> string" where
  "json_string s = json_copy 0 s"

fun valid_from :: "nat \<Rightarrow> string \<Rightarrow> bool" where
  "valid_from k [] = True"
| "valid_from (Suc k) (b # rest) = valid_from k rest"
| "valid_from 0 (b # rest) =
     (case rune_size (b # rest) of 0 \<Rightarrow> False | Suc n \<Rightarrow> valid_from n rest)"

definition ValidString :: "string \<Rightarrow> bool" where
  "ValidString s = valid_from 0 s"

text \<open>
  The payload as it comes back from the wire: every string through \<open>json_string\<close>, the
  dates (whole seconds) as they were. The metadata is read under a key of valid UTF-8;
  the definition is for maps whose keys are all valid UTF-8, as the map of the issuer
  is (a key that is not would be renamed by the encoder).
\<close>

definition wire_RegisteredClaims :: "RegisteredClaims \<Rightarrow> RegisteredClaims" where
  "wire_RegisteredClaims r =
     \<lparr>Issuer = json_string (Issuer r), Subject = json_string (Subject r),
      Audience = map json_string (Audience r), ExpiresAt = ExpiresAt r,
      NotBefore = NotBefore r, IssuedAt = IssuedAt r, ID = json_string (ID r)\<rparr>"

definition wire_claims :: "JWTClaims \<Rightarrow> JWTClaims" where
  "wire_claims c =
     \<lparr>RegisteredClaims = wire_RegisteredClaims (RegisteredClaims c),
      CredentialsType = json_string (CredentialsType c),
      AuthMetadata =
        (\<lambda>k. if json_string k = k then map_option json_string (AuthMetadata c k)
             else None)\<rparr>"

text \<open>
  A signing method and a payload parser of the library belong together when the parser
  reads, from every compact form the signing method returns for a token whose metadata
  keys are valid UTF-8, the payload of that token as it comes back from the wire.
\<close>

definition json_transport ::
  "(JWTClaims Token \<Rightarrow> any \<Rightarrow> error + string) \<Rightarrow> (string \<Rightarrow> JWTClaims option) \<Rightarrow> bool" where
  "json_transport SignedString parse \<longleftrightarrow>
     (\<forall>t key raw.
        SignedString t key = Inr raw \<longrightarrow>
        (\<forall>k. AuthMetadata (Claims t) k \<noteq> None \<longrightarrow> ValidString k) \<longrightarrow>
        parse raw = Some (wire_claims (Claims t)))"

text \<open>
  A signing method that signs one token only, with one key, and the parser that reads
  its compact form.
\<close>

definition example_SignedString :: "JWTClaims Token \<Rightarrow> any \<Rightarrow> error + string" where
  "example_SignedString t key =
     (if t = webAuthAccessToken 1000 ''u@example.com'' ''svc-a'' ''idp'' ''k1''
         \<and> key = AObject 7
      then Inr ''header.payload.signature''
      else Inl (External 1))"

definition example_parse :: "string \<Rightarrow> JWTClaims option" where
  "example_parse raw =
     (if raw = ''header.payload.signature''
      then Some (wire_claims
        (Claims (webAuthAccessToken 1000 ''u@example.com'' ''svc-a'' ''idp'' ''k1'')))
      else None)"

section \<open>Helper lemmas\<close>

lemma verifyAud_range_eq:
  "verifyAud_range aud cmp result stringClaims =
     (result \<or> cmp \<in> set aud, stringClaims @ concat aud)"
  by (induction aud arbitrary: result stringClaims) auto

lemma verifyAud_required:
  "verifyAud aud cmp True \<longleftrightarrow> cmp \<in> set aud \<and> concat aud \<noteq> []"
  by (auto simp: verifyAud_def verifyAud_range_eq)

lemma VerifyAudience_member:
  "VerifyAudience c cmp True \<Longrightarrow> cmp \<in> set (Audience c)"
  by (simp add: VerifyAudience_def verifyAud_required)


lemma call_collaborator_fst:
  "fst (call_collaborator f record_call ctx arg s) = fst (f ctx arg (world s))"
  by (simp add: call_collaborator_def split: prod.split)

lemma call_collaborator_state:
  "snd (call_collaborator f record_call ctx arg s) =
     s\<lparr>world := snd (f ctx arg (world s)), calls := calls s @ [record_call ctx arg]\<rparr>"
  by (simp add: call_collaborator_def split: prod.split)

lemma Authenticate_frame:
  "handler (snd (Authenticate ctx entity payload s)) = handler s"
  "heap (snd (Authenticate ctx entity payload s)) = heap s"
  by (simp_all add: Authenticate_def)

lemma VerifyEntity_frame:
  "handler (snd (VerifyEntity ctx entity s)) = handler s"
  "heap (snd (VerifyEntity ctx entity s)) = heap s"
  by (simp_all add: VerifyEntity_def call_collaborator_state split: option.split)

lemma TokenVerificationKey_frame:
  "handler (snd (TokenVerificationKey token s)) = handler s"
  "heap (snd (TokenVerificationKey token s)) = heap s"
  by (simp_all add: TokenVerificationKey_def call_collaborator_state
        split: option.split any.split)

lemma CreateClaims_frame:
  "handler (snd (CreateClaims s)) = handler s"
  "length (heap (snd (CreateClaims s))) = Suc (length (heap s))"
  by (simp_all add: CreateClaims_def)

lemma exec_handler: "handler (snd (exec c s)) = handler s"
  by (cases c)
     (simp_all add: case_prod_beta Authenticate_frame VerifyEntity_frame
        CreateClaims_frame TokenVerificationKey_frame)

lemma run_handler: "handler (snd (run cs s)) = handler s"
  by (induction cs arbitrary: s) (simp_all add: case_prod_beta exec_handler)

lemma exec_heap_grows: "length (heap s) \<le> length (heap (snd (exec c s)))"
  by (cases c)
     (simp_all add: case_prod_beta Authenticate_frame VerifyEntity_frame
        CreateClaims_frame TokenVerificationKey_frame)

lemma run_heap_grows: "length (heap s) \<le> length (heap (snd (run cs s)))"
proof (induction cs arbitrary: s)
  case Nil
  show ?case by simp
next
  case (Cons c cs)
  have "length (heap s) \<le> length (heap (snd (exec c s)))"
    by (rule exec_heap_grows)
  also have "\<dots> \<le> length (heap (snd (run cs (snd (exec c s)))))"
    by (rule Cons.IH)
  finally show ?case by (simp add: case_prod_beta)
qed

lemma run_created:
  "created (fst (run cs s)) = [length (heap s) ..< length (heap (snd (run cs s)))]"
proof (induction cs arbitrary: s)
  case Nil
  show ?case by simp
next
  case (Cons c cs)
  show ?case
  proof (cases c)
    case CallCreateClaims
    let ?s' = "snd (CreateClaims s)"
    have len: "length (heap ?s') = Suc (length (heap s))"
      by (rule CreateClaims_frame)
    have "Suc (length (heap s)) \<le> length (heap (snd (run cs ?s')))"
      using run_heap_grows [of ?s' cs] len by simp
    then have "[length (heap s) ..< length (heap (snd (run cs ?s')))] =
        length (heap s) # [Suc (length (heap s)) ..< length (heap (snd (run cs ?s')))]"
      by (simp add: upt_conv_Cons)
    moreover have "fst (CreateClaims s) = length (heap s)"
      by (simp add: CreateClaims_def)
    ultimately show ?thesis
      using CallCreateClaims Cons.IH [of ?s'] len by (simp add: case_prod_beta)
  next
    case (CallAuthenticate ctx entity payload)
    then show ?thesis
      using Cons.IH [of "snd (Authenticate ctx entity payload s)"]
      by (simp add: case_prod_beta Authenticate_frame)
  next
    case (CallVerifyEntity ctx entity)
    then show ?thesis
      using Cons.IH [of "snd (VerifyEntity ctx entity s)"]
      by (simp add: case_prod_beta VerifyEntity_frame)
  next
    case (CallTokenVerificationKey token)
    then show ?thesis
      using Cons.IH [of "snd (TokenVerificationKey token s)"]
      by (simp add: case_prod_beta TokenVerificationKey_frame)
  qed
qed

lemma exec_heap_prefix: "take (length (heap s)) (heap (snd (exec c s))) = heap s"
  by (cases c)
     (simp_all add: case_prod_beta Authenticate_frame VerifyEntity_frame
        TokenVerificationKey_frame CreateClaims_def)

lemma run_heap_prefix: "take (length (heap s)) (heap (snd (run cs s))) = heap s"
proof (induction cs arbitrary: s)
  case Nil
  show ?case by simp
next
  case (Cons c cs)
  let ?s' = "snd (exec c s)"
  have "take (length (heap s)) (heap (snd (run cs ?s'))) =
        take (length (heap s)) (take (length (heap ?s')) (heap (snd (run cs ?s'))))"
    using exec_heap_grows [of s c] by (simp add: min_def)
  also have "\<dots> = take (length (heap s)) (heap ?s')"
    by (simp only: Cons.IH)
  also have "\<dots> = heap s"
    by (rule exec_heap_prefix)
  finally show ?case by (simp add: case_prod_beta)
qed

section \<open>The claims object\<close>

text \<open>
  C1: \<open>Valid()\<close> checks the audience first and the base claims second. When the
  audience list does not contain the allowed audience, and whenever the audience check
  fails, \<open>Valid()\<close> returns the invalid-audience error whatever the base validation
  would say; when the audience check passes, \<open>Valid()\<close> returns what the base
  validation returns; so \<open>Valid()\<close> succeeds exactly when both checks pass.
\<close>

theorem C1_Valid_audience_first:
  "(allowedAudience c \<notin> set (Audience (RegisteredClaims (JWTClaims c))) \<longrightarrow>
      Valid base c = Some (ErrorsNew ''invalid aud''))
   \<and> (\<not> VerifyAudience (RegisteredClaims (JWTClaims c)) (allowedAudience c) True \<longrightarrow>
      Valid base c = Some (ErrorsNew ''invalid aud''))
   \<and> (VerifyAudience (RegisteredClaims (JWTClaims c)) (allowedAudience c) True \<longrightarrow>
      Valid base c = base (JWTClaims c))
   \<and> (Valid base c = None \<longleftrightarrow>
      VerifyAudience (RegisteredClaims (JWTClaims c)) (allowedAudience c) True
      \<and> base (JWTClaims c) = None)"
  using VerifyAudience_member [of "RegisteredClaims (JWTClaims c)" "allowedAudience c"]
  by (auto simp: Valid_def)

theorem C1_Valid_audience_first_witness:
  "Valid (\<lambda>c. Some (External 7))
     \<lparr>JWTClaims = zero_JWTClaims\<lparr>RegisteredClaims :=
        zero_RegisteredClaims\<lparr>Audience := [''svc-b'', ''svc-c'']\<rparr>\<rparr>,
      allowedAudience = ''svc-a''\<rparr> = Some (ErrorsNew ''invalid aud'')
   \<and> Valid (\<lambda>c. Some (External 7))
     \<lparr>JWTClaims = zero_JWTClaims\<lparr>RegisteredClaims :=
        zero_RegisteredClaims\<lparr>Audience := [''svc-b'', ''svc-a'']\<rparr>\<rparr>,
      allowedAudience = ''svc-a''\<rparr> = Some (External 7)
   \<and> Valid (\<lambda>c. None)
     \<lparr>JWTClaims = zero_JWTClaims\<lparr>RegisteredClaims :=
        zero_RegisteredClaims\<lparr>Audience := [''svc-b'', ''svc-a'']\<rparr>\<rparr>,
      allowedAudience = ''svc-a''\<rparr> = None"
  using C1_Valid_audience_first
    [of "\<lparr>JWTClaims = zero_JWTClaims\<lparr>RegisteredClaims :=
            zero_RegisteredClaims\<lparr>Audience := [''svc-b'', ''svc-c'']\<rparr>\<rparr>,
          allowedAudience = ''svc-a''\<rparr>" "\<lambda>c. Some (External 7)"]
    C1_Valid_audience_first
    [of "\<lparr>JWTClaims = zero_JWTClaims\<lparr>RegisteredClaims :=
            zero_RegisteredClaims\<lparr>Audience := [''svc-b'', ''svc-a'']\<rparr>\<rparr>,
          allowedAudience = ''svc-a''\<rparr>" "\<lambda>c. Some (External 7)"]
    C1_Valid_audience_first
    [of "\<lparr>JWTClaims = zero_JWTClaims\<lparr>RegisteredClaims :=
            zero_RegisteredClaims\<lparr>Audience := [''svc-b'', ''svc-a'']\<rparr>\<rparr>,
          allowedAudience = ''svc-a''\<rparr>" "\<lambda>c. None"]
  by (simp add: VerifyAudience_def verifyAud_def zero_JWTClaims_def
        zero_RegisteredClaims_def)

text \<open>
  C3: \<open>Entity()\<close> returns the value stored under \<open>"email"\<close> in the metadata when the key
  is present and fails with the missing-email error when it is absent, also for claims
  that \<open>Valid()\<close> accepts; changing the subject never changes what \<open>Entity()\<close>
  returns.
\<close>

theorem C3_Entity_reads_email:
  "(AuthMetadata (JWTClaims c) ''email'' = Some email \<longrightarrow> Entity c = Inr email)
   \<and> (AuthMetadata (JWTClaims c) ''email'' = None \<longrightarrow>
        Entity c = Inl (ErrorsNew ''missing email in rpc_auth_md''))
   \<and> (Valid base c = None \<and> AuthMetadata (JWTClaims c) ''email'' = None \<longrightarrow>
        Entity c = Inl (ErrorsNew ''missing email in rpc_auth_md''))
   \<and> Entity (c\<lparr>JWTClaims := (JWTClaims c)\<lparr>RegisteredClaims :=
        (RegisteredClaims (JWTClaims c))\<lparr>Subject := sub\<rparr>\<rparr>\<rparr>) = Entity c"
  by (simp add: Entity_def)

theorem C3_Entity_reads_email_witness:
  "Valid (JWTClaims_Valid 100)
     \<lparr>JWTClaims = zero_JWTClaims\<lparr>RegisteredClaims :=
        zero_RegisteredClaims\<lparr>Audience := [''svc-a'']\<rparr>\<rparr>,
      allowedAudience = ''svc-a''\<rparr> = None
   \<and> Entity
     \<lparr>JWTClaims = zero_JWTClaims\<lparr>RegisteredClaims :=
        zero_RegisteredClaims\<lparr>Audience := [''svc-a'']\<rparr>\<rparr>,
      allowedAudience = ''svc-a''\<rparr> = Inl (ErrorsNew ''missing email in rpc_auth_md'')
   \<and> Entity
     \<lparr>JWTClaims = zero_JWTClaims\<lparr>AuthMetadata := [''email'' \<mapsto> ''a@b.c'']\<rparr>,
      allowedAudience = ''svc-a''\<rparr> = Inr ''a@b.c''"
  using C3_Entity_reads_email
    [of "\<lparr>JWTClaims = zero_JWTClaims\<lparr>RegisteredClaims :=
            zero_RegisteredClaims\<lparr>Audience := [''svc-a'']\<rparr>\<rparr>,
          allowedAudience = ''svc-a''\<rparr>" "''a@b.c''" "JWTClaims_Valid 100"]
    C3_Entity_reads_email
    [of "\<lparr>JWTClaims = zero_JWTClaims\<lparr>AuthMetadata := [''email'' \<mapsto> ''a@b.c'']\<rparr>,
          allowedAudience = ''svc-a''\<rparr>" "''a@b.c''" "JWTClaims_Valid 100"]
  by (simp add: Valid_def VerifyAudience_def verifyAud_def JWTClaims_Valid_def
        RegisteredClaims_Valid_def zero_JWTClaims_def zero_RegisteredClaims_def)

section \<open>The methods of the handler\<close>

text \<open>
  C2: when the \<open>"kid"\<close> entry of the header is absent or not a string, the key
  resolver fails with the invalid-key-identifier error and the state is the one it
  started in: no call was made and the world is untouched. When the entry is a string
  and a key provider is configured, the resolver makes exactly one call, passing that
  string, and returns the provider's result; the world is the one the provider left,
  and neither the handler nor the claims objects change (nothing is cached).
\<close>

theorem C2_TokenVerificationKey:
  "((\<forall>keyID. Header token ''kid'' \<noteq> Some (AString keyID)) \<longrightarrow>
      TokenVerificationKey token s = (Inl (ErrorsNew ''kid not valid''), s))
   \<and> (Header token ''kid'' = Some (AString keyID)
        \<and> KeyProvider (WebOAuthOptions (handler s)) = Some provider \<longrightarrow>
      fst (TokenVerificationKey token s) = fst (provider TODO keyID (world s))
      \<and> world (snd (TokenVerificationKey token s)) = snd (provider TODO keyID (world s))
      \<and> calls (snd (TokenVerificationKey token s)) = calls s @ [LookupKey TODO keyID]
      \<and> handler (snd (TokenVerificationKey token s)) = handler s
      \<and> heap (snd (TokenVerificationKey token s)) = heap s)"
proof -
  have invalid: "TokenVerificationKey token s = (Inl (ErrorsNew ''kid not valid''), s)"
    if "\<forall>keyID. Header token ''kid'' \<noteq> Some (AString keyID)"
    using that by (simp add: TokenVerificationKey_def split: option.split any.split)
  have forwarded: "TokenVerificationKey token s =
      call_collaborator provider LookupKey TODO keyID s"
    if "Header token ''kid'' = Some (AString keyID)"
      and "KeyProvider (WebOAuthOptions (handler s)) = Some provider"
    using that by (simp add: TokenVerificationKey_def)
  show ?thesis
    using invalid forwarded
    by (simp add: call_collaborator_fst call_collaborator_state)
qed

theorem C2_TokenVerificationKey_witness:
  "TokenVerificationKey (token_with_header Map.empty) example_state =
     (Inl (ErrorsNew ''kid not valid''), example_state)
   \<and> TokenVerificationKey (token_with_header [''kid'' \<mapsto> ANumber 7]) example_state =
     (Inl (ErrorsNew ''kid not valid''), example_state)
   \<and> fst (TokenVerificationKey (token_with_header [''kid'' \<mapsto> AString ''k1''])
        example_state) = Inr (AObject 1)
   \<and> world (snd (TokenVerificationKey (token_with_header [''kid'' \<mapsto> AString ''k1''])
        example_state)) = 1
   \<and> calls (snd (TokenVerificationKey (token_with_header [''kid'' \<mapsto> AString ''k1''])
        example_state)) = [LookupKey TODO ''k1'']
   \<and> fst (TokenVerificationKey (token_with_header [''kid'' \<mapsto> AString ''k-missing''])
        example_state) = Inl (External 0)"
  using C2_TokenVerificationKey [where token = "token_with_header Map.empty"
      and s = example_state]
    C2_TokenVerificationKey [where token = "token_with_header [''kid'' \<mapsto> ANumber 7]"
      and s = example_state]
    C2_TokenVerificationKey [where token = "token_with_header [''kid'' \<mapsto> AString ''k1'']"
      and keyID = "''k1''" and s = example_state and provider = example_provider]
    C2_TokenVerificationKey
      [where token = "token_with_header [''kid'' \<mapsto> AString ''k-missing'']"
      and keyID = "''k-missing''" and s = example_state and provider = example_provider]
  by (simp add: token_with_header_def example_state_def example_options_def
        example_provider_def WithWebOAuthTokenAuthHandler_def)

text \<open>
  C5: without an entity verifier in the options, \<open>VerifyEntity\<close> fails with the
  internal-configuration error for every context and entity, and the state is the one
  it started in. With a verifier, \<open>VerifyEntity\<close> makes exactly one call, passing the
  caller's context and the entity, and returns the verifier's result.
\<close>

theorem C5_VerifyEntity:
  "(EntityVerifier (WebOAuthOptions (handler s)) = None \<longrightarrow>
      VerifyEntity ctx entity s =
        (Inl (StatusError Internal ''invalid verify entity configuration''), s))
   \<and> (EntityVerifier (WebOAuthOptions (handler s)) = Some verifier \<longrightarrow>
      fst (VerifyEntity ctx entity s) = fst (verifier ctx entity (world s))
      \<and> world (snd (VerifyEntity ctx entity s)) = snd (verifier ctx entity (world s))
      \<and> calls (snd (VerifyEntity ctx entity s)) = calls s @ [VerifierCall ctx entity]
      \<and> handler (snd (VerifyEntity ctx entity s)) = handler s
      \<and> heap (snd (VerifyEntity ctx entity s)) = heap s)"
  by (simp add: VerifyEntity_def call_collaborator_fst call_collaborator_state)

theorem C5_VerifyEntity_witness:
  "VerifyEntity (Scoped 3) ''u@example.com'' bare_state =
     (Inl (StatusError Internal ''invalid verify entity configuration''), bare_state)
   \<and> fst (VerifyEntity (Scoped 3) ''u@example.com'' example_state) =
       Inr (AString ''u@example.com'')
   \<and> world (snd (VerifyEntity (Scoped 3) ''u@example.com'' example_state)) = 1
   \<and> calls (snd (VerifyEntity (Scoped 3) ''u@example.com'' example_state)) =
       [VerifierCall (Scoped 3) ''u@example.com'']"
  using C5_VerifyEntity [where s = bare_state and ctx = "Scoped 3"
      and entity = "''u@example.com''"]
    C5_VerifyEntity [where s = example_state and verifier = example_verifier
      and ctx = "Scoped 3" and entity = "''u@example.com''"]
  by (simp add: bare_state_def example_state_def example_options_def
        example_verifier_def WithWebOAuthTokenAuthHandler_def)

text \<open>
  C7: for every context, entity and payload, \<open>Authenticate\<close> returns the
  unimplemented status error, never a credential map, and leaves the state as it was.
\<close>

theorem C7_Authenticate_unimplemented:
  "fst (Authenticate ctx entity payload s) =
     Inl (StatusError Unimplemented ''not implemented with webauth'')
   \<and> (\<forall>credentials. fst (Authenticate ctx entity payload s) \<noteq> Inr credentials)
   \<and> snd (Authenticate ctx entity payload s) = s"
  by (simp add: Authenticate_def)

text \<open>
  C8: whatever context the caller holds, the call the key resolver makes to the key
  provider carries \<open>context.TODO()\<close>, the empty context of the standard library, and
  the call \<open>VerifyEntity\<close> makes to the entity verifier carries the caller's context.
\<close>

theorem C8_contexts:
  assumes "Header token ''kid'' = Some (AString keyID)"
    and "KeyProvider (WebOAuthOptions (handler s)) = Some provider"
    and "EntityVerifier (WebOAuthOptions (handler s)) = Some verifier"
  shows "calls (snd (TokenVerificationKey token s)) = calls s @ [LookupKey TODO keyID]
    \<and> fst (TokenVerificationKey token s) = fst (provider TODO keyID (world s))
    \<and> calls (snd (VerifyEntity ctx entity s)) = calls s @ [VerifierCall ctx entity]
    \<and> fst (VerifyEntity ctx entity s) = fst (verifier ctx entity (world s))"
  using assms
  by (simp add: TokenVerificationKey_def VerifyEntity_def call_collaborator_fst
        call_collaborator_state)

theorem C8_contexts_witness:
  "calls (snd (TokenVerificationKey (token_with_header [''kid'' \<mapsto> AString ''k1''])
      example_state)) = [LookupKey TODO ''k1'']
   \<and> calls (snd (VerifyEntity (Scoped 3) ''u@example.com'' example_state)) =
       [VerifierCall (Scoped 3) ''u@example.com'']"
proof -
  have kid: "Header (token_with_header [''kid'' \<mapsto> AString ''k1'']) ''kid'' =
      Some (AString ''k1'')"
    by (simp add: token_with_header_def)
  have provider: "KeyProvider (WebOAuthOptions (handler example_state)) =
      Some example_provider"
    by (simp add: example_state_def example_options_def WithWebOAuthTokenAuthHandler_def)
  have verifier: "EntityVerifier (WebOAuthOptions (handler example_state)) =
      Some example_verifier"
    by (simp add: example_state_def example_options_def WithWebOAuthTokenAuthHandler_def)
  have "calls example_state = []"
    by (simp add: example_state_def)
  then show ?thesis
    using C8_contexts [OF kid provider verifier, of "Scoped 3" "''u@example.com''"]
    by simp
qed

text \<open>
  C9: \<open>CreateClaims\<close> returns a pointer to a newly allocated claims object, whose
  payload is zero and whose allowed audience is the one of the handler's options. After
  any history of calls of the four methods, the pointer it returns is none of those
  returned before, which are pairwise distinct, and the objects allocated before are as
  they were. \<open>CreateClaims\<close>, \<open>Authenticate\<close>, \<open>VerifyEntity\<close>,
  \<open>TokenVerificationKey\<close> and every history of them leave the handler unchanged.
\<close>

theorem C9_CreateClaims_fresh:
  "fst (CreateClaims s) = length (heap s)
   \<and> heap (snd (CreateClaims s)) =
       heap s @ [\<lparr>JWTClaims = zero_JWTClaims,
                  allowedAudience = AllowedAudience (WebOAuthOptions (handler s))\<rparr>]
   \<and> allowedAudience (heap (snd (CreateClaims s)) ! fst (CreateClaims s)) =
       AllowedAudience (WebOAuthOptions (handler s))
   \<and> JWTClaims (heap (snd (CreateClaims s)) ! fst (CreateClaims s)) = zero_JWTClaims
   \<and> fst (CreateClaims (snd (run cs s))) \<notin> set (created (fst (run cs s)))
   \<and> distinct (created (fst (run cs s)))
   \<and> take (length (heap s)) (heap (snd (run cs s))) = heap s
   \<and> handler (snd (CreateClaims s)) = handler s
   \<and> handler (snd (Authenticate ctx entity payload s)) = handler s
   \<and> handler (snd (VerifyEntity ctx entity s)) = handler s
   \<and> handler (snd (TokenVerificationKey token s)) = handler s
   \<and> handler (snd (run cs s)) = handler s"
proof -
  have "fst (CreateClaims (snd (run cs s))) = length (heap (snd (run cs s)))"
    by (simp add: CreateClaims_def)
  then have fresh: "fst (CreateClaims (snd (run cs s))) \<notin> set (created (fst (run cs s)))"
    by (simp add: run_created)
  have dist: "distinct (created (fst (run cs s)))"
    by (simp add: run_created)
  have obj: "heap (snd (CreateClaims s)) ! fst (CreateClaims s) =
      \<lparr>JWTClaims = zero_JWTClaims,
       allowedAudience = AllowedAudience (WebOAuthOptions (handler s))\<rparr>"
    by (simp add: CreateClaims_def)
  show ?thesis
    using fresh dist
    by (simp add: obj run_heap_prefix run_handler Authenticate_frame VerifyEntity_frame
          TokenVerificationKey_frame CreateClaims_frame)
      (simp add: CreateClaims_def)
qed

section \<open>The token issuer\<close>

text \<open>
  C6: \<open>SignWebAuthAccessToken\<close> returns what the signing method of the library yields
  for the given key and a token whose header holds exactly \<open>typ = "JWT"\<close>,
  \<open>alg = "RS256"\<close> and \<open>kid\<close> = the key identifier, whose signing method is RS256, and
  whose payload has the one-element audience list, the issuer, the entity as subject,
  the current time as issued-at, no expiry and no not-before date, the credentials type
  \<open>"oauth-web-auth"\<close> and a metadata map with the entity under \<open>"email"\<close>, the key
  that \<open>Entity()\<close> reads.
\<close>

theorem C6_SignWebAuthAccessToken:
  "SignWebAuthAccessToken SignedString now key entity aud iss keyID =
     SignedString (webAuthAccessToken now entity aud iss keyID) key
   \<and> (let t = webAuthAccessToken now entity aud iss keyID;
           payload = Claims t;
           registered = RegisteredClaims payload
       in Header t ''typ'' = Some (AString ''JWT'')
        \<and> Header t ''alg'' = Some (AString ''RS256'')
        \<and> Header t ''kid'' = Some (AString keyID)
        \<and> dom (Header t) = {''typ'', ''alg'', ''kid''}
        \<and> Method t = Some SigningMethodRS256
        \<and> Audience registered = [aud]
        \<and> Issuer registered = iss
        \<and> Subject registered = entity
        \<and> IssuedAt registered = Some now
        \<and> ExpiresAt registered = None
        \<and> NotBefore registered = None
        \<and> ID registered = []
        \<and> CredentialsType payload = ''oauth-web-auth''
        \<and> AuthMetadata payload = [''email'' \<mapsto> entity]
        \<and> Entity \<lparr>JWTClaims = payload, allowedAudience = allowed\<rparr> = Inr entity)"
  by (auto simp: SignWebAuthAccessToken_def webAuthAccessToken_def Let_def
        CredentialsTypeOAuthWeb_def Entity_def)

lemma valid_from_json_copy: "valid_from k s \<Longrightarrow> json_copy k s = s"
  by (induction k s rule: json_copy.induct) (auto split: nat.splits)

lemma ValidString_json_string: "ValidString s \<Longrightarrow> json_string s = s"
  by (simp add: ValidString_def json_string_def valid_from_json_copy)

lemma json_string_email: "json_string ''email'' = ''email''"
  by (simp add: json_string_def)

lemma ValidString_email: "ValidString ''email''"
  by (simp add: ValidString_def)

lemma webAuthAccessToken_metadata_keys:
  "AuthMetadata (Claims (webAuthAccessToken now entity aud iss keyID)) k \<noteq> None \<Longrightarrow>
   ValidString k"
  by (cases "k = ''email''") (simp_all add: webAuthAccessToken_def ValidString_email)

lemma wire_webAuthAccessToken:
  "Subject (RegisteredClaims
     (wire_claims (Claims (webAuthAccessToken now entity aud iss keyID)))) =
     json_string entity"
  "AuthMetadata (wire_claims (Claims (webAuthAccessToken now entity aud iss keyID)))
     ''email'' = Some (json_string entity)"
  by (simp_all add: wire_claims_def wire_RegisteredClaims_def webAuthAccessToken_def
        json_string_email)

text \<open>
  C10 as stated fails for an entity that is not valid UTF-8: issued for the entity of
  the single byte FF, the claims that come back from the wire yield the entity EF BF BD,
  the replacement character, which is not the entity argument.
\<close>

theorem C10_wire_counterexample:
  "Entity (fill_claims
     (wire_claims (Claims (webAuthAccessToken 0 [CHR 0xFF] ''svc-a'' ''idp'' ''k1'')))
     (heap (snd (CreateClaims example_state)) ! fst (CreateClaims example_state))) =
     Inr [CHR 0xEF, CHR 0xBF, CHR 0xBD]
   \<and> Entity (fill_claims
     (wire_claims (Claims (webAuthAccessToken 0 [CHR 0xFF] ''svc-a'' ''idp'' ''k1'')))
     (heap (snd (CreateClaims example_state)) ! fst (CreateClaims example_state))) \<noteq>
     Inr [CHR 0xFF]"
  by (simp add: Entity_def fill_claims_def wire_claims_def webAuthAccessToken_def
        json_string_def)

text \<open>
  C10, as amended: the issuer hands the signing method a token whose subject and
  \<open>"email"\<close> attribute are both the entity argument, and returns the compact form that
  the signing method yields. In the payload read back from that compact form the
  subject and the \<open>"email"\<close> attribute are still one string, the entity with every byte
  that is not valid UTF-8 replaced by U+FFFD, and \<open>Entity()\<close> on claims filled from it
  returns that string; when the entity is valid UTF-8 it is the entity argument itself.
\<close>

theorem C10_issued_subject_is_email:
  "(let t = webAuthAccessToken now entity aud iss keyID;
        payload = wire_claims (Claims t)
    in SignWebAuthAccessToken SignedString now key entity aud iss keyID =
         SignedString t key
     \<and> Subject (RegisteredClaims (Claims t)) = entity
     \<and> AuthMetadata (Claims t) ''email'' = Some entity
     \<and> (json_transport SignedString parse
          \<and> SignWebAuthAccessToken SignedString now key entity aud iss keyID = Inr raw
        \<longrightarrow> parse raw = Some payload)
     \<and> Subject (RegisteredClaims payload) = json_string entity
     \<and> AuthMetadata payload ''email'' = Some (json_string entity)
     \<and> AuthMetadata payload ''email'' = Some (Subject (RegisteredClaims payload))
     \<and> Entity (fill_claims payload c) = Inr (json_string entity)
     \<and> (ValidString entity \<longrightarrow>
          Subject (RegisteredClaims payload) = entity
          \<and> AuthMetadata payload ''email'' = Some entity
          \<and> Entity (fill_claims payload c) = Inr entity))"
proof -
  let ?t = "webAuthAccessToken now entity aud iss keyID"
  let ?payload = "wire_claims (Claims ?t)"
  have handed: "SignWebAuthAccessToken SignedString now key entity aud iss keyID =
      SignedString ?t key"
    by (simp add: SignWebAuthAccessToken_def)
  have memory: "Subject (RegisteredClaims (Claims ?t)) = entity"
    "AuthMetadata (Claims ?t) ''email'' = Some entity"
    by (simp_all add: webAuthAccessToken_def)
  have parsed: "parse raw = Some ?payload"
    if "json_transport SignedString parse"
      and "SignWebAuthAccessToken SignedString now key entity aud iss keyID = Inr raw"
  proof -
    have "SignedString ?t key = Inr raw"
      using that(2) by (simp add: handed)
    moreover have "\<forall>k. AuthMetadata (Claims ?t) k \<noteq> None \<longrightarrow> ValidString k"
      using webAuthAccessToken_metadata_keys by blast
    ultimately show ?thesis
      using that(1) unfolding json_transport_def by blast
  qed
  have subject: "Subject (RegisteredClaims ?payload) = json_string entity"
    and email: "AuthMetadata ?payload ''email'' = Some (json_string entity)"
    by (rule wire_webAuthAccessToken)+
  have entity: "Entity (fill_claims ?payload c) = Inr (json_string entity)"
    using email by (simp add: Entity_def fill_claims_def)
  have same: "json_string entity = entity" if "ValidString entity"
    using that by (rule ValidString_json_string)
  show ?thesis
    unfolding Let_def
    using handed memory parsed subject email entity same by simp
qed

theorem C10_issued_subject_is_email_witness:
  "SignWebAuthAccessToken example_SignedString 1000 (AObject 7)
     ''u@example.com'' ''svc-a'' ''idp'' ''k1'' = Inr ''header.payload.signature''
   \<and> example_parse ''header.payload.signature'' =
       Some (wire_claims
         (Claims (webAuthAccessToken 1000 ''u@example.com'' ''svc-a'' ''idp'' ''k1'')))
   \<and> Subject (RegisteredClaims (wire_claims
         (Claims (webAuthAccessToken 1000 ''u@example.com'' ''svc-a'' ''idp'' ''k1'')))) =
       ''u@example.com''
   \<and> Entity (fill_claims
       (wire_claims
         (Claims (webAuthAccessToken 1000 ''u@example.com'' ''svc-a'' ''idp'' ''k1'')))
       (heap (snd (CreateClaims example_state)) ! fst (CreateClaims example_state))) =
       Inr ''u@example.com''"
proof -
  have transport: "json_transport example_SignedString example_parse"
    unfolding json_transport_def example_SignedString_def example_parse_def
    by (auto split: if_splits)
  have issued: "SignWebAuthAccessToken example_SignedString 1000 (AObject 7)
      ''u@example.com'' ''svc-a'' ''idp'' ''k1'' = Inr ''header.payload.signature''"
    by (simp add: SignWebAuthAccessToken_def example_SignedString_def)
  have valid: "ValidString ''u@example.com''"
    by (simp add: ValidString_def)
  show ?thesis
    using C10_issued_subject_is_email
      [where SignedString = example_SignedString and parse = example_parse
        and now = 1000 and key = "AObject 7" and entity = "''u@example.com''"
        and aud = "''svc-a''" and iss = "''idp''" and keyID = "''k1''"
        and raw = "''header.payload.signature''"
        and c = "heap (snd (CreateClaims example_state)) ! fst (CreateClaims example_state)"]
      transport issued valid
    unfolding Let_def by blast
qed




end
